theory Spec2Isabelle
  imports Main
begin

section \<open>OxyFloat: the cache-and-fetch pipeline of oxyfloat/OxyFloat.py\<close>

text \<open>
  A shallow embedding of the class \<open>OxyFloat\<close>. Every method becomes a function of the
  same name (without the leading underscore). The HDF file behind \<open>pd.HDFStore\<close> is a
  map from names to tables that is passed in and returned; a Python exception is the
  \<open>Inl\<close> branch of a sum. The network, the parsers of pandas and BeautifulSoup and the
  rounding of floating-point numbers are library code outside the repository: they are
  fields of the record \<open>env\<close>, so that every statement holds for all of their behaviours.
  Log output is not modelled.
\<close>

subsection \<open>Exceptions\<close>

datatype error =
    KeyError string
  | RequiredVariableNotPresent string string
  | ConnectionError
  | ServerError
  | AttributeError
  | IndexError
  | TypeError
  | ValueError
  | UndefinedVariableError
  | OtherError string

subsection \<open>Tables\<close>

text \<open>
  One row of the status table as \<open>get_oxy_floats_from_status\<close> reads it: the columns
  \<open>WMO\<close>, \<open>OXYGEN\<close>, \<open>GREYLIST\<close> and \<open>AGE\<close>, integers in the status file.
\<close>

record status_row =
  WMO :: int
  OXYGEN :: int
  GREYLIST :: int
  AGE :: int

text \<open>
  A value of a profile variable is a float or NaN (\<open>None\<close>). The type \<open>'v\<close> of the floats
  is left open. What \<open>ds[v].values[0]\<close> yields is one value (a variable with one value
  per profile) or a one-dimensional array (one value per pressure level).
\<close>

datatype 'v var_value = Scalar "'v option" | Array "'v option list"

text \<open>
  An entry of the \<open>MultiIndex\<close> built in \<open>_profile_to_dataframe\<close>:
  \<open>(wmo, time, lon, lat, pressure)\<close>.
\<close>

type_synonym 'v index_tuple =
  "string \<times> 'v var_value \<times> 'v var_value \<times> 'v var_value \<times> 'v option"

text \<open>
  The three kinds of \<open>DataFrame\<close> that the class stores and reads: the status table,
  the global metadata (its column \<open>file\<close>), and a profile table, which is an index and
  named columns in insertion order. \<open>pd.DataFrame()\<close> is the profile table without index
  and without columns.
\<close>

datatype 'v dataframe =
    StatusDF "status_row list"
  | GlobalMetaDF "string list"
  | ProfileDF "'v index_tuple list" "(string \<times> 'v option list) list"

definition empty_df :: "'v dataframe" where
  "empty_df = ProfileDF [] []"

subsection \<open>The local store\<close>

type_synonym 'v store = "string \<rightharpoonup> 'v dataframe"

text \<open>\<open>_put_df\<close>: \<open>store[name] = df\<close>.\<close>

definition put_df :: "'v store \<Rightarrow> 'v dataframe \<Rightarrow> string \<Rightarrow> 'v store" where
  "put_df store df name = store(name \<mapsto> df)"

text \<open>\<open>_get_df\<close>: \<open>df = store[name]\<close>, the \<open>KeyError\<close> re-raised.\<close>

definition get_df :: "'v store \<Rightarrow> string \<Rightarrow> error + 'v dataframe" where
  "get_df store name =
     (case store name of None \<Rightarrow> Inl (KeyError name) | Some df \<Rightarrow> Inr df)"

subsection \<open>The key normalizer\<close>

text \<open>
  The character class \<open>[^a-zA-Z0-9_]\<close> of the regular expression in
  \<open>_url_to_naturalname\<close>, by its three ranges and the underscore.
\<close>

definition in_range :: "char \<Rightarrow> char \<Rightarrow> char \<Rightarrow> bool" where
  "in_range lo hi c = ((of_char lo :: nat) \<le> of_char c \<and> (of_char c :: nat) \<le> of_char hi)"

definition illegal_char :: "char \<Rightarrow> bool" where
  "illegal_char c =
     (\<not> (in_range CHR ''a'' CHR ''z'' c \<or> in_range CHR ''A'' CHR ''Z'' c
         \<or> in_range CHR ''0'' CHR ''9'' c \<or> c = CHR ''_''))"

text \<open>\<open>regex.sub('', url)\<close>: every match, one character of the class, becomes \<open>''\<close>.\<close>

fun regex_sub_empty :: "(char \<Rightarrow> bool) \<Rightarrow> string \<Rightarrow> string" where
  "regex_sub_empty cls [] = []"
| "regex_sub_empty cls (c # cs) =
     (if cls c then [] else [c]) @ regex_sub_empty cls cs"

definition url_to_naturalname :: "string \<Rightarrow> string" where
  "url_to_naturalname url = regex_sub_empty illegal_char url"

text \<open>The alphanumeric characters and the underscore, written out.\<close>

definition alnum_underscore :: "char set" where
  "alnum_underscore =
     set (''abcdefghijklmnopqrstuvwxyz'' @ ''ABCDEFGHIJKLMNOPQRSTUVWXYZ''
          @ ''0123456789'' @ ''_'')"

subsection \<open>The object and its surroundings\<close>

text \<open>
  The attributes set by \<open>__init__\<close>. \<open>variables\<close> is a Python set: the list has no
  duplicates and its order stands for the order in which the set is iterated.
  \<open>cache_file_requested\<close> exists only when a cache file was passed: a missing attribute
  is \<open>None\<close>, and reading it raises \<open>AttributeError\<close>.
\<close>

record config =
  status_url :: string
  global_url :: string
  thredds_url :: string
  variables :: "string list"
  oxygen_required :: bool
  cache_file_requested :: "string option"

text \<open>
  \<open>__init__\<close>: \<open>if cache_file:\<close> is false for \<open>None\<close> and for the empty string.
\<close>

definition init :: "string option \<Rightarrow> bool \<Rightarrow> string \<Rightarrow> string \<Rightarrow> string \<Rightarrow> string list \<Rightarrow> config" where
  "init cache_file oxygen_req s_url g_url t_url vars =
     \<lparr> status_url = s_url, global_url = g_url, thredds_url = t_url,
       variables = remdups vars, oxygen_required = oxygen_req,
       cache_file_requested =
         (case cache_file of None \<Rightarrow> None
          | Some f \<Rightarrow> if f = [] then None else Some f) \<rparr>"

definition coordinates :: "string list" where
  "coordinates = [''PRES_ADJUSTED'', ''LATITUDE'', ''LONGITUDE'', ''JULD'']"

definition MAX_PROFILES :: int where
  "MAX_PROFILES = 10000000000"

text \<open>What reading a variable of an opened dataset gives: its values, or a server error.\<close>

datatype 'v var_read = Values "'v var_value" | ServerFailure

type_synonym 'v dataset = "string \<rightharpoonup> 'v var_read"

text \<open>
  The library calls of the class. \<open>requests_get u\<close> is the text of \<open>requests.get(u)\<close> or
  the exception it raises; \<open>urlopen\<close> likewise for \<open>urllib2.urlopen\<close>; \<open>read_csv\<close> and
  \<open>read_csv_comment\<close> are \<open>pd.read_csv\<close> without and with \<open>comment='#'\<close>;
  \<open>open_dataset\<close> is \<open>xray.open_dataset\<close>; \<open>dataset_urlpaths\<close> gives, for a catalog
  document, the \<open>urlpath\<close> attributes of its \<open>dataset\<close> elements in document order, as
  BeautifulSoup finds them; \<open>round1 x\<close> is \<open>round(x, 1)\<close>.
\<close>

record 'v env =
  requests_get :: "string \<Rightarrow> error + string"
  urlopen :: "string \<Rightarrow> error + string"
  read_csv :: "string \<Rightarrow> error + 'v dataframe"
  read_csv_comment :: "string \<Rightarrow> error + 'v dataframe"
  open_dataset :: "string \<Rightarrow> error + 'v dataset"
  dataset_urlpaths :: "string \<Rightarrow> string list"
  round1 :: "'v \<Rightarrow> 'v"

subsection \<open>Remote readers of the status and the metadata\<close>

text \<open>\<open>_status_to_df\<close>: \<open>req.text[1:]\<close> skips the byte-order mark.\<close>

definition status_to_df :: "config \<Rightarrow> 'v env \<Rightarrow> error + 'v dataframe" where
  "status_to_df cfg env =
     (case requests_get env (status_url cfg) of
        Inl e \<Rightarrow> Inl e
      | Inr text \<Rightarrow> read_csv env (drop 1 text))"

definition global_meta_to_df :: "config \<Rightarrow> 'v env \<Rightarrow> error + 'v dataframe" where
  "global_meta_to_df cfg env =
     (case urlopen env (global_url cfg) of
        Inl e \<Rightarrow> Inl e
      | Inr r \<Rightarrow> read_csv_comment env r)"

subsection \<open>The profile transformer\<close>

text \<open>\<open>ds[v].values[0]\<close>: \<open>KeyError\<close> when \<open>v\<close> is not in the dataset.\<close>

definition values0 :: "'v dataset \<Rightarrow> string \<Rightarrow> error + 'v var_value" where
  "values0 ds v =
     (case ds v of
        None \<Rightarrow> Inl (KeyError v)
      | Some ServerFailure \<Rightarrow> Inl ServerError
      | Some (Values x) \<Rightarrow> Inr x)"

text \<open>
  The list comprehension of the index tuples. Its iterable,
  \<open>ds['PRES_ADJUSTED'].values[0]\<close>, is evaluated first; the other coordinates are read
  in the order of the tuple, and only when there is a pressure level.
\<close>

definition index_tuples :: "'v env \<Rightarrow> string \<Rightarrow> 'v dataset \<Rightarrow> error + 'v index_tuple list" where
  "index_tuples env wmo ds =
     (case values0 ds ''PRES_ADJUSTED'' of
        Inl e \<Rightarrow> Inl e
      | Inr (Scalar p) \<Rightarrow> Inl TypeError
      | Inr (Array ps) \<Rightarrow>
          if ps = [] then Inr []
          else (case values0 ds ''JULD'' of
                  Inl e \<Rightarrow> Inl e
                | Inr t \<Rightarrow>
                   (case values0 ds ''LONGITUDE'' of
                      Inl e \<Rightarrow> Inl e
                    | Inr lon \<Rightarrow>
                       (case values0 ds ''LATITUDE'' of
                          Inl e \<Rightarrow> Inl e
                        | Inr lat \<Rightarrow>
                            Inr (map (\<lambda>pres. (wmo, t, lon, lat, map_option (round1 env) pres)) ps)))))"

text \<open>
  \<open>pd.Series(ds[v].values[0], index=indices)\<close>: a single value is repeated along the
  index, an array must have the length of the index.
\<close>

definition series :: "'v dataset \<Rightarrow> 'v index_tuple list \<Rightarrow> string \<Rightarrow> error + 'v option list" where
  "series ds indices v =
     (case values0 ds v of
        Inl e \<Rightarrow> Inl e
      | Inr (Scalar x) \<Rightarrow> Inr (replicate (length indices) x)
      | Inr (Array xs) \<Rightarrow> if length xs = length indices then Inr xs else Inl ValueError)"

text \<open>\<open>df[v] = s\<close> on a profile table: the column is replaced, or added at the end.\<close>

fun set_item :: "(string \<times> 'a) list \<Rightarrow> string \<Rightarrow> 'a \<Rightarrow> (string \<times> 'a) list" where
  "set_item [] v s = [(v, s)]"
| "set_item ((k, x) # cols) v s =
     (if k = v then (k, s) # cols else (k, x) # set_item cols v s)"

text \<open>
  The loop \<open>for v in self.variables ^ self._coordinates\<close>: \<open>KeyError\<close> and
  \<open>ServerError\<close> are logged and the variable is left out; any other exception leaves
  the method.
\<close>

fun add_variables ::
  "'v dataset \<Rightarrow> 'v index_tuple list \<Rightarrow> string list \<Rightarrow> (string \<times> 'v option list) list
    \<Rightarrow> error + (string \<times> 'v option list) list" where
  "add_variables ds indices [] cols = Inr cols"
| "add_variables ds indices (v # vs) cols =
     (case series ds indices v of
        Inr s \<Rightarrow> add_variables ds indices vs (set_item cols v s)
      | Inl (KeyError k) \<Rightarrow> add_variables ds indices vs cols
      | Inl ServerError \<Rightarrow> add_variables ds indices vs cols
      | Inl e \<Rightarrow> Inl e)"

text \<open>The symmetric difference \<open>a ^ b\<close> of two sets.\<close>

definition symmetric_difference :: "string list \<Rightarrow> string list \<Rightarrow> string list" where
  "symmetric_difference a b = [v \<leftarrow> a. v \<notin> set b] @ [v \<leftarrow> b. v \<notin> set a]"

text \<open>
  \<open>_profile_to_dataframe\<close>. The first variable of \<open>self.variables\<close> that the dataset
  lacks raises \<open>RequiredVariableNotPresent\<close>. A table that got no column is still
  \<open>pd.DataFrame()\<close>; the first column assigned brings the index.
\<close>

definition profile_to_dataframe :: "config \<Rightarrow> 'v env \<Rightarrow> string \<Rightarrow> string \<Rightarrow> error + 'v dataframe" where
  "profile_to_dataframe cfg env wmo url =
     (case open_dataset env url of
        Inl e \<Rightarrow> Inl e
      | Inr ds \<Rightarrow>
         (case [v \<leftarrow> variables cfg. ds v = None] of
            v # vs \<Rightarrow> Inl (RequiredVariableNotPresent v url)
          | [] \<Rightarrow>
             (case index_tuples env wmo ds of
                Inl e \<Rightarrow> Inl e
              | Inr indices \<Rightarrow>
                 (case add_variables ds indices
                         (symmetric_difference (variables cfg) coordinates) [] of
                    Inl e \<Rightarrow> Inl e
                  | Inr cols \<Rightarrow> Inr (if cols = [] then empty_df else ProfileDF indices cols)))))"

subsection \<open>Strings\<close>

text \<open>\<open>s.split(sep)\<close> for a separator of one character, and \<open>sep.join(parts)\<close>.\<close>

fun split :: "char \<Rightarrow> string \<Rightarrow> string list" where
  "split sep [] = [[]]"
| "split sep (c # cs) =
     (if c = sep then [] # split sep cs
      else (case split sep cs of
              [] \<Rightarrow> [[c]]
            | p # ps \<Rightarrow> (c # p) # ps))"

fun join :: "string \<Rightarrow> string list \<Rightarrow> string" where
  "join sep [] = []"
| "join sep [p] = p"
| "join sep (p # q # ps) = p @ sep @ join sep (q # ps)"

text \<open>
  \<open>re.compile("nc$").search(s)\<close>: \<open>$\<close> matches at the end of the string and before a
  newline that ends the string.
\<close>

definition search_nc_end :: "string \<Rightarrow> bool" where
  "search_nc_end s =
     (take 2 (rev s) = ''cn'' \<or> take 3 (rev s) = [CHR 0x0A, CHR ''c'', CHR ''n''])"

definition is_digit :: "char \<Rightarrow> bool" where
  "is_digit c = in_range CHR ''0'' CHR ''9'' c"

text \<open>
  \<open>re.compile('max_profiles_([0-9]+)').search(s)\<close>, giving \<open>m.group(1)\<close>: the leftmost
  place where the literal is followed by a digit, and all the digits there.
\<close>

fun search_max_profiles :: "string \<Rightarrow> string option" where
  "search_max_profiles [] = None"
| "search_max_profiles (c # cs) =
     (if take 13 (c # cs) = ''max_profiles_'' \<and> takeWhile is_digit (drop 13 (c # cs)) \<noteq> []
      then Some (takeWhile is_digit (drop 13 (c # cs)))
      else search_max_profiles cs)"

text \<open>\<open>int(digits)\<close> for a string of decimal digits.\<close>

definition int_of_digits :: "string \<Rightarrow> int" where
  "int_of_digits ds = foldl (\<lambda>a c. 10 * a + (int (of_char c) - int (of_char CHR ''0''))) 0 ds"

subsection \<open>Eligible floats\<close>

text \<open>
  \<open>df.query('(OXYGEN == 1) & (GREYLIST == 0) & (AGE != 0) & (AGE >= age_gte)')\<close> and
  \<open>odf['WMO'].tolist()\<close>. A table without these columns makes \<open>query\<close> raise.
\<close>

fun query_oxy_floats :: "int \<Rightarrow> 'v dataframe \<Rightarrow> error + int list" where
  "query_oxy_floats age_gte (StatusDF rows) =
     Inr (map WMO [r \<leftarrow> rows. OXYGEN r = 1 \<and> GREYLIST r = 0 \<and> AGE r \<noteq> 0 \<and> AGE r \<ge> age_gte])"
| "query_oxy_floats age_gte (GlobalMetaDF files) = Inl UndefinedVariableError"
| "query_oxy_floats age_gte (ProfileDF idx cols) = Inl UndefinedVariableError"

definition STATUS :: string where
  "STATUS = ''status''"

definition GLOBAL_META :: string where
  "GLOBAL_META = ''global_meta''"

text \<open>
  \<open>get_oxy_floats_from_status\<close>. The result comes with the store as the call leaves it.
\<close>

definition get_oxy_floats_from_status ::
  "config \<Rightarrow> 'v env \<Rightarrow> 'v store \<Rightarrow> int \<Rightarrow> (error + int list) \<times> 'v store" where
  "get_oxy_floats_from_status cfg env store age_gte =
     (case get_df store STATUS of
        Inr df \<Rightarrow> (query_oxy_floats age_gte df, store)
      | Inl (KeyError k) \<Rightarrow>
         (case status_to_df cfg env of
            Inl e \<Rightarrow> (Inl e, store)
          | Inr sdf \<Rightarrow>
             (let store' = put_df store sdf STATUS in
              case get_df store' STATUS of
                Inl e \<Rightarrow> (Inl e, store')
              | Inr df \<Rightarrow> (query_oxy_floats age_gte df, store')))
      | Inl e \<Rightarrow> (Inl e, store))"

subsection \<open>Data-center catalogs\<close>

text \<open>
  The loop of \<open>get_dac_urls\<close> over the \<open>file\<close> column. \<open>dac_urls\<close> is a dictionary:
  the association list keeps one entry per key, and its order stands for the order in
  which \<open>iteritems\<close> yields them. \<open>split('/')[1]\<close> raises \<open>IndexError\<close> on a path
  without a slash.
\<close>

fun dac_urls_loop ::
  "string \<Rightarrow> string list \<Rightarrow> string list \<Rightarrow> (string \<times> string) list
    \<Rightarrow> error + (string \<times> string) list" where
  "dac_urls_loop thredds desired [] dac_urls = Inr dac_urls"
| "dac_urls_loop thredds desired (file # files) dac_urls =
     (let parts = split CHR ''/'' file in
      if length parts < 2 then Inl IndexError
      else (let floatNum = parts ! 1 in
            if floatNum \<in> set desired
            then dac_urls_loop thredds desired files
                   (set_item dac_urls floatNum
                      (thredds @ join ''/'' (take 2 parts) @ ''/profiles/catalog.xml''))
            else dac_urls_loop thredds desired files dac_urls))"

fun file_column :: "'v dataframe \<Rightarrow> error + string list" where
  "file_column (GlobalMetaDF files) = Inr files"
| "file_column (StatusDF rows) = Inl (KeyError ''file'')"
| "file_column (ProfileDF idx cols) = Inl (KeyError ''file'')"

definition get_dac_urls ::
  "config \<Rightarrow> 'v env \<Rightarrow> 'v store \<Rightarrow> string list
    \<Rightarrow> (error + (string \<times> string) list) \<times> 'v store" where
  "get_dac_urls cfg env store desired_float_numbers =
     (let (r, store') =
        (case get_df store GLOBAL_META of
           Inr df \<Rightarrow> (Inr df, store)
         | Inl (KeyError k) \<Rightarrow>
            (case global_meta_to_df cfg env of
               Inl e \<Rightarrow> (Inl e, store)
             | Inr gdf \<Rightarrow>
                (let store' = put_df store gdf GLOBAL_META in (get_df store' GLOBAL_META, store')))
         | Inl e \<Rightarrow> (Inl e, store))
      in case r of
           Inl e \<Rightarrow> (Inl e, store')
         | Inr df \<Rightarrow>
            (case file_column df of
               Inl e \<Rightarrow> (Inl e, store')
             | Inr files \<Rightarrow>
                 (dac_urls_loop (thredds_url cfg) desired_float_numbers files [], store')))"

subsection \<open>The catalog reader\<close>

text \<open>
  \<open>get_profile_opendap_urls\<close>: only \<open>ConnectionError\<close> is caught, and then the empty
  list is returned.
\<close>

definition get_profile_opendap_urls :: "'v env \<Rightarrow> string \<Rightarrow> error + string list" where
  "get_profile_opendap_urls env catalog_url =
     (case requests_get env catalog_url of
        Inl ConnectionError \<Rightarrow> Inr []
      | Inl e \<Rightarrow> Inl e
      | Inr text \<Rightarrow>
         (let base_url = join ''/'' (take 4 (split CHR ''/'' catalog_url)) @ ''/dodsC/''
          in Inr (map (\<lambda>urlpath. base_url @ urlpath)
                    [u \<leftarrow> dataset_urlpaths env text. search_nc_end u])))"

subsection \<open>The profile cap\<close>

text \<open>
  \<open>_get_cache_file_parms\<close>. The \<open>AttributeError\<close> of a missing
  \<open>cache_file_requested\<close> and that of \<open>m.group\<close> on no match are caught: the cap
  stays as passed. \<open>not max_profiles\<close> holds for \<open>None\<close> and for 0.
\<close>

definition get_cache_file_parms :: "config \<Rightarrow> int option \<Rightarrow> int option" where
  "get_cache_file_parms cfg max_profiles =
     (case cache_file_requested cfg of
        None \<Rightarrow> max_profiles
      | Some f \<Rightarrow>
         (case search_max_profiles f of
            None \<Rightarrow> max_profiles
          | Some digits \<Rightarrow>
             (let cache_file_max = int_of_digits digits in
              case max_profiles of
                None \<Rightarrow> Some cache_file_max
              | Some m \<Rightarrow> if m = 0 \<or> m > cache_file_max then Some cache_file_max else Some m)))"

text \<open>
  The first three lines of \<open>get_float_dataframe\<close>: the cap that its loops use.
\<close>

definition effective_max_profiles :: "config \<Rightarrow> int option \<Rightarrow> int" where
  "effective_max_profiles cfg max_profiles =
     (case get_cache_file_parms cfg max_profiles of
        None \<Rightarrow> MAX_PROFILES
      | Some m \<Rightarrow> if m = 0 then MAX_PROFILES else m)"

subsection \<open>Oxygen validation and the cache of profiles\<close>

text \<open>
  \<open>_validate_oxygen\<close>: \<open>df['DOXY_ADJUSTED']\<close> raises \<open>KeyError\<close> on a table without
  that column; \<open>dropna().empty\<close> holds when no value of the column is left.
\<close>

fun validate_oxygen :: "'v dataframe \<Rightarrow> error + 'v dataframe" where
  "validate_oxygen (ProfileDF idx cols) =
     (case map_of cols ''DOXY_ADJUSTED'' of
        None \<Rightarrow> Inl (KeyError ''DOXY_ADJUSTED'')
      | Some s \<Rightarrow> Inr (if [x \<leftarrow> s. x \<noteq> None] = [] then empty_df else ProfileDF idx cols))"
| "validate_oxygen (StatusDF rows) = Inl (KeyError ''DOXY_ADJUSTED'')"
| "validate_oxygen (GlobalMetaDF files) = Inl (KeyError ''DOXY_ADJUSTED'')"

text \<open>
  \<open>_save_profile\<close>. The arguments \<open>count\<close> and \<open>opendap_urls\<close> only feed a log message
  and are left out. Only \<open>RequiredVariableNotPresent\<close> is caught; any other exception
  leaves the method before \<open>_put_df\<close>.
\<close>

definition save_profile ::
  "config \<Rightarrow> 'v env \<Rightarrow> 'v store \<Rightarrow> string \<Rightarrow> string \<Rightarrow> string
    \<Rightarrow> (error + 'v dataframe) \<times> 'v store" where
  "save_profile cfg env store url wmo key =
     (case (case profile_to_dataframe cfg env wmo url of
              Inl e \<Rightarrow> Inl e
            | Inr df \<Rightarrow> if oxygen_required cfg then validate_oxygen df else Inr df) of
        Inr df \<Rightarrow> (Inr df, put_df store df key)
      | Inl (RequiredVariableNotPresent v u) \<Rightarrow> (Inr empty_df, put_df store empty_df key)
      | Inl e \<Rightarrow> (Inl e, store))"

subsection \<open>The orchestrator\<close>

text \<open>
  The body of the inner loop of \<open>get_float_dataframe\<close> after the check of the cap:
  the cache is read, and on \<open>KeyError\<close> the profile is fetched and saved.
\<close>

definition cached_or_saved ::
  "config \<Rightarrow> 'v env \<Rightarrow> 'v store \<Rightarrow> string \<Rightarrow> string \<Rightarrow> (error + 'v dataframe) \<times> 'v store" where
  "cached_or_saved cfg env store wmo url =
     (let key = url_to_naturalname url in
      case get_df store key of
        Inr df \<Rightarrow> (Inr df, store)
      | Inl (KeyError k) \<Rightarrow> save_profile cfg env store url wmo key
      | Inl e \<Rightarrow> (Inl e, store))"

text \<open>
  \<open>for i, url in enumerate(opendap_urls)\<close> with \<open>if i > max_profiles: break\<close>. The
  merged table \<open>float_df\<close> is kept as the list of the tables appended to it.
\<close>

fun profiles_loop ::
  "config \<Rightarrow> 'v env \<Rightarrow> string \<Rightarrow> int \<Rightarrow> nat \<Rightarrow> string list \<Rightarrow> 'v store \<Rightarrow> 'v dataframe list
    \<Rightarrow> (error + 'v dataframe list) \<times> 'v store" where
  "profiles_loop cfg env wmo max_profiles i [] store float_df = (Inr float_df, store)"
| "profiles_loop cfg env wmo max_profiles i (url # urls) store float_df =
     (if int i > max_profiles then (Inr float_df, store)
      else (case cached_or_saved cfg env store wmo url of
              (Inl e, store') \<Rightarrow> (Inl e, store')
            | (Inr df, store') \<Rightarrow>
                profiles_loop cfg env wmo max_profiles (Suc i) urls store' (float_df @ [df])))"

text \<open>The outer loop, over the items of \<open>get_dac_urls(wmo_list)\<close>.\<close>

fun floats_loop ::
  "config \<Rightarrow> 'v env \<Rightarrow> int \<Rightarrow> (string \<times> string) list \<Rightarrow> 'v store \<Rightarrow> 'v dataframe list
    \<Rightarrow> (error + 'v dataframe list) \<times> 'v store" where
  "floats_loop cfg env max_profiles [] store float_df = (Inr float_df, store)"
| "floats_loop cfg env max_profiles ((wmo, dac_url) # rest) store float_df =
     (case get_profile_opendap_urls env dac_url of
        Inl e \<Rightarrow> (Inl e, store)
      | Inr opendap_urls \<Rightarrow>
         (case profiles_loop cfg env wmo max_profiles 0 opendap_urls store float_df of
            (Inl e, store') \<Rightarrow> (Inl e, store')
          | (Inr float_df', store') \<Rightarrow> floats_loop cfg env max_profiles rest store' float_df'))"

definition get_float_dataframe ::
  "config \<Rightarrow> 'v env \<Rightarrow> 'v store \<Rightarrow> string list \<Rightarrow> int option
    \<Rightarrow> (error + 'v dataframe list) \<times> 'v store" where
  "get_float_dataframe cfg env store wmo_list max_profiles =
     (let max_profiles' = effective_max_profiles cfg max_profiles in
      case get_dac_urls cfg env store wmo_list of
        (Inl e, store') \<Rightarrow> (Inl e, store')
      | (Inr dac_urls, store') \<Rightarrow> floats_loop cfg env max_profiles' dac_urls store' [])"

subsection \<open>Notions of the specification\<close>

text \<open>
  Processing a list of locators without any cap: each one is looked up in the cache or
  fetched and saved, in order, and its table is appended; an exception ends the run.
\<close>

fun process_all ::
  "config \<Rightarrow> 'v env \<Rightarrow> string \<Rightarrow> string list \<Rightarrow> 'v store \<Rightarrow> 'v dataframe list
    \<Rightarrow> (error + 'v dataframe list) \<times> 'v store" where
  "process_all cfg env wmo [] store float_df = (Inr float_df, store)"
| "process_all cfg env wmo (url # urls) store float_df =
     (case cached_or_saved cfg env store wmo url of
        (Inl e, store') \<Rightarrow> (Inl e, store')
      | (Inr df, store') \<Rightarrow> process_all cfg env wmo urls store' (float_df @ [df]))"

text \<open>
  Processing the floats of a batch when \<open>n\<close> locators per float are wanted: for every
  float in turn the catalog is read and the first \<open>n\<close> locators of it are processed.
\<close>

fun process_floats ::
  "config \<Rightarrow> 'v env \<Rightarrow> nat \<Rightarrow> (string \<times> string) list \<Rightarrow> 'v store \<Rightarrow> 'v dataframe list
    \<Rightarrow> (error + 'v dataframe list) \<times> 'v store" where
  "process_floats cfg env n [] store float_df = (Inr float_df, store)"
| "process_floats cfg env n ((wmo, dac_url) # rest) store float_df =
     (case get_profile_opendap_urls env dac_url of
        Inl e \<Rightarrow> (Inl e, store)
      | Inr opendap_urls \<Rightarrow>
         (case process_all cfg env wmo (take n opendap_urls) store float_df of
            (Inl e, store') \<Rightarrow> (Inl e, store')
          | (Inr float_df', store') \<Rightarrow> process_floats cfg env n rest store' float_df'))"

text \<open>
  The cap that the name of the requested cache file encodes, as \<open>_get_cache_file_parms\<close>
  reads it: \<open>cache_file_max\<close>, when the expression matches.
\<close>

definition cache_file_max :: "config \<Rightarrow> int option" where
  "cache_file_max cfg =
     (case cache_file_requested cfg of
        None \<Rightarrow> None
      | Some f \<Rightarrow> map_option int_of_digits (search_max_profiles f))"


subsection \<open>A float whose oxygen cannot be read\<close>

text \<open>
  An object made with the default arguments of \<open>__init__\<close>, and surroundings with one
  float, 1900722, that has one profile. The dataset of the profile has every variable,
  but reading the values of \<open>DOXY_ADJUSTED\<close> fails with a server error.
\<close>

definition default_variables :: "string list" where
  "default_variables =
     [''TEMP_ADJUSTED'', ''PSAL_ADJUSTED'', ''DOXY_ADJUSTED'',
      ''PRES_ADJUSTED'', ''LATITUDE'', ''LONGITUDE'', ''JULD'']"

definition default_config :: config where
  "default_config =
     init None True
       ''http://argo.jcommops.org/FTPRoot/Argo/Status/argo_all.txt''
       ''ftp://ftp.ifremer.fr/ifremer/argo/ar_index_global_meta.txt''
       ''http://tds0.ifremer.fr/thredds/catalog/CORIOLIS-ARGO-GDAC-OBS''
       default_variables"

definition unread_oxygen_dataset :: "int dataset" where
  "unread_oxygen_dataset =
     map_of
       [(''TEMP_ADJUSTED'', Values (Array [Some 12, Some 11])),
        (''PSAL_ADJUSTED'', Values (Array [Some 35, Some 34])),
        (''DOXY_ADJUSTED'', ServerFailure),
        (''PRES_ADJUSTED'', Values (Array [Some 5, Some 10])),
        (''LATITUDE'', Values (Scalar (Some 36))),
        (''LONGITUDE'', Values (Scalar (Some (- 122)))),
        (''JULD'', Values (Scalar (Some 23000)))]"

definition one_float_env :: "int dataset \<Rightarrow> int env" where
  "one_float_env ds =
     \<lparr> requests_get = (\<lambda>u. Inr ''<catalog/>''),
       urlopen = (\<lambda>u. Inr ''file''),
       read_csv = (\<lambda>t. Inr (StatusDF [])),
       read_csv_comment = (\<lambda>t. Inr (GlobalMetaDF [''aoml/1900722/1900722_meta.nc''])),
       open_dataset = (\<lambda>u. Inr ds),
       dataset_urlpaths = (\<lambda>t. [''aoml/1900722/profiles/D1900722_001.nc'']),
       round1 = id \<rparr>"

definition profile_001_url :: string where
  "profile_001_url =
     ''http://tds0.ifremer.fr/thredds/dodsC/aoml/1900722/profiles/D1900722_001.nc''"

subsection \<open>A float with five profiles\<close>

text \<open>
  The same float with oxygen that can be read, and with five profiles in its catalog.
\<close>

definition oxygen_dataset :: "int dataset" where
  "oxygen_dataset = unread_oxygen_dataset(''DOXY_ADJUSTED'' \<mapsto> Values (Array [Some 250, None]))"

definition five_profiles_env :: "int env" where
  "five_profiles_env =
     (one_float_env oxygen_dataset)
       \<lparr> dataset_urlpaths := (\<lambda>t. [''a/1.nc'', ''a/2.nc'', ''a/3.nc'', ''a/4.nc'', ''a/5.nc'']) \<rparr>"

definition oxygen_table :: "int dataframe" where
  "oxygen_table =
     ProfileDF
       [(''1900722'', Scalar (Some 23000), Scalar (Some (- 122)), Scalar (Some 36), Some 5),
        (''1900722'', Scalar (Some 23000), Scalar (Some (- 122)), Scalar (Some 36), Some 10)]
       [(''TEMP_ADJUSTED'', [Some 12, Some 11]), (''PSAL_ADJUSTED'', [Some 35, Some 34]),
        (''DOXY_ADJUSTED'', [Some 250, None])]"

section \<open>Properties\<close>

subsection \<open>The key normalizer\<close>

lemma illegal_char_iff: "\<forall>c. illegal_char c \<longleftrightarrow> c \<notin> alnum_underscore"
  by code_simp

lemma regex_sub_empty_filter: "regex_sub_empty cls s = filter (\<lambda>c. \<not> cls c) s"
  by (induction s) auto

lemma url_to_naturalname_filter:
  "url_to_naturalname url = filter (\<lambda>c. c \<in> alnum_underscore) url"
  by (simp add: url_to_naturalname_def regex_sub_empty_filter illegal_char_iff)

text \<open>
  Claim C7. \<open>_url_to_naturalname\<close> returns the locator without the characters that are
  neither alphanumeric nor the underscore. Hence two locators that differ in one
  disallowed character at the same place, or by one disallowed character more, get the
  same key.
\<close>

theorem url_to_naturalname_strips:
  "url_to_naturalname url = filter (\<lambda>c. c \<in> alnum_underscore) url
   \<and> (c \<notin> alnum_underscore \<and> d \<notin> alnum_underscore \<longrightarrow>
        url_to_naturalname (xs @ c # ys) = url_to_naturalname (xs @ d # ys)
        \<and> url_to_naturalname (xs @ c # ys) = url_to_naturalname (xs @ ys))"
  by (simp add: url_to_naturalname_filter)

theorem url_to_naturalname_strips_witness:
  "CHR ''/'' \<notin> alnum_underscore \<and> CHR '':'' \<notin> alnum_underscore
   \<and> url_to_naturalname ''http://x/y_1.nc'' = ''httpxy_1nc''
   \<and> url_to_naturalname (''a'' @ CHR ''/'' # ''b'') = url_to_naturalname (''a'' @ CHR '':'' # ''b'')
   \<and> url_to_naturalname (''a'' @ CHR ''/'' # ''b'') = url_to_naturalname (''a'' @ ''b'')"
  using url_to_naturalname_strips [of "''http://x/y_1.nc''" "CHR ''/''" "CHR '':''" "''a''" "''b''"]
  by (auto simp add: alnum_underscore_def)

subsection \<open>The local store\<close>

text \<open>
  Claim C8. \<open>_get_df\<close> on a name that the store does not hold raises \<open>KeyError\<close> (the
  \<open>EntryNotFound\<close> of the specification) and returns no table.
\<close>

theorem get_df_absent_raises:
  "store name = None \<Longrightarrow>
     get_df store name = Inl (KeyError name) \<and> (\<forall>df. get_df store name \<noteq> Inr df)"
  by (simp add: get_df_def)

theorem get_df_absent_raises_witness:
  "(Map.empty :: int store) ''k'' = None
   \<and> get_df (Map.empty :: int store) ''k'' = Inl (KeyError ''k'')
   \<and> (\<forall>df. get_df (Map.empty :: int store) ''k'' \<noteq> Inr df)"
  using get_df_absent_raises [of "Map.empty :: int store" "''k''"] by simp

text \<open>
  Claim C9. \<open>_put_df\<close> followed by \<open>_get_df\<close> on the same name returns the table that
  was put, and a second put under a name replaces the first.
\<close>

theorem put_df_get_df_roundtrip:
  "get_df (put_df store df name) name = Inr df
   \<and> put_df (put_df store df0 name) df name = put_df store df name"
  by (simp add: get_df_def put_df_def)

lemma put_df_other_name:
  "name' \<noteq> name \<Longrightarrow> get_df (put_df store df name) name' = get_df store name'"
  by (simp add: get_df_def put_df_def)

subsection \<open>Eligible floats\<close>

text \<open>
  Claim C2. When the status table is in the cache, or is not and is then read from the
  status source, \<open>get_oxy_floats_from_status\<close> returns the \<open>WMO\<close> numbers of exactly
  the rows with \<open>OXYGEN = 1\<close>, \<open>GREYLIST = 0\<close>, a nonzero \<open>AGE\<close> and
  \<open>AGE \<ge> age_gte\<close>, in the order of the table. On the four rows of the specification
  and \<open>age_gte = 340\<close> it returns \<open>[1]\<close>.
\<close>

theorem get_oxy_floats_from_status_eligible:
  "(store STATUS = Some (StatusDF rows)
      \<or> store STATUS = None \<and> status_to_df cfg env = Inr (StatusDF rows)) \<Longrightarrow>
   fst (get_oxy_floats_from_status cfg env store age_gte) =
     Inr (map WMO [r \<leftarrow> rows. OXYGEN r = 1 \<and> GREYLIST r = 0 \<and> AGE r \<noteq> 0 \<and> age_gte \<le> AGE r])
   \<and> fst (get_oxy_floats_from_status cfg env
            (Map.empty(STATUS \<mapsto> StatusDF
               [\<lparr>WMO = 1, OXYGEN = 1, GREYLIST = 0, AGE = 340\<rparr>,
                \<lparr>WMO = 2, OXYGEN = 0, GREYLIST = 0, AGE = 500\<rparr>,
                \<lparr>WMO = 3, OXYGEN = 1, GREYLIST = 1, AGE = 500\<rparr>,
                \<lparr>WMO = 4, OXYGEN = 1, GREYLIST = 0, AGE = 0\<rparr>])) 340) = Inr [1]"
  by (auto simp add: get_oxy_floats_from_status_def get_df_def put_df_def)

theorem get_oxy_floats_from_status_eligible_witness:
  "(Map.empty :: int store) STATUS = None
   \<and> status_to_df default_config
        ((one_float_env unread_oxygen_dataset)
           \<lparr>read_csv := \<lambda>t. Inr (StatusDF
               [\<lparr>WMO = 5904, OXYGEN = 1, GREYLIST = 0, AGE = 341\<rparr>,
                \<lparr>WMO = 5905, OXYGEN = 1, GREYLIST = 0, AGE = 339\<rparr>])\<rparr>)
       = Inr (StatusDF
               [\<lparr>WMO = 5904, OXYGEN = 1, GREYLIST = 0, AGE = 341\<rparr>,
                \<lparr>WMO = 5905, OXYGEN = 1, GREYLIST = 0, AGE = 339\<rparr>])
   \<and> fst (get_oxy_floats_from_status default_config
        ((one_float_env unread_oxygen_dataset)
           \<lparr>read_csv := \<lambda>t. Inr (StatusDF
               [\<lparr>WMO = 5904, OXYGEN = 1, GREYLIST = 0, AGE = 341\<rparr>,
                \<lparr>WMO = 5905, OXYGEN = 1, GREYLIST = 0, AGE = 339\<rparr>])\<rparr>)
        (Map.empty :: int store) 340) = Inr [5904]"
proof -
  let ?rows = "[\<lparr>WMO = 5904, OXYGEN = 1, GREYLIST = 0, AGE = 341\<rparr>,
                \<lparr>WMO = 5905, OXYGEN = 1, GREYLIST = 0, AGE = 339\<rparr>]"
  let ?env = "(one_float_env unread_oxygen_dataset)\<lparr>read_csv := \<lambda>t. Inr (StatusDF ?rows)\<rparr>"
  have miss: "(Map.empty :: int store) STATUS = None" by simp
  have fetched: "status_to_df default_config ?env = Inr (StatusDF ?rows)"
    by (simp add: status_to_df_def one_float_env_def)
  from miss fetched
    get_oxy_floats_from_status_eligible
      [of "Map.empty :: int store" ?rows default_config ?env 340]
  show ?thesis by simp
qed

subsection \<open>A profile without a required variable\<close>

lemma profile_to_dataframe_missing:
  assumes "open_dataset env url = Inr ds" and "\<exists>v\<in>set (variables cfg). ds v = None"
  shows "\<exists>v\<in>set (variables cfg). ds v = None
           \<and> profile_to_dataframe cfg env wmo url = Inl (RequiredVariableNotPresent v url)"
proof (cases "[v \<leftarrow> variables cfg. ds v = None]")
  case Nil
  then have "\<forall>v\<in>set (variables cfg). ds v \<noteq> None"
    by (simp add: filter_empty_conv)
  with assms(2) show ?thesis by blast
next
  case (Cons v vs)
  then have "v \<in> set [v \<leftarrow> variables cfg. ds v = None]" by simp
  then have "v \<in> set (variables cfg)" "ds v = None" by simp_all
  moreover have "profile_to_dataframe cfg env wmo url = Inl (RequiredVariableNotPresent v url)"
    using assms(1) Cons by (simp add: profile_to_dataframe_def)
  ultimately show ?thesis by blast
qed

text \<open>
  Claim C3. When the dataset of a profile lacks one of the configured variables,
  \<open>_profile_to_dataframe\<close> raises \<open>RequiredVariableNotPresent\<close> for such a variable,
  and \<open>_save_profile\<close> returns the empty table, without an exception, and has put the
  empty table under the key of the profile.
\<close>

theorem missing_variable_saves_empty_table:
  "open_dataset env url = Inr ds \<Longrightarrow> \<exists>v\<in>set (variables cfg). ds v = None \<Longrightarrow>
   (\<exists>v\<in>set (variables cfg). ds v = None
       \<and> profile_to_dataframe cfg env wmo url = Inl (RequiredVariableNotPresent v url))
   \<and> save_profile cfg env store url wmo key = (Inr empty_df, store(key \<mapsto> empty_df))
   \<and> get_df (snd (save_profile cfg env store url wmo key)) key = Inr empty_df"
proof -
  assume a: "open_dataset env url = Inr ds" "\<exists>v\<in>set (variables cfg). ds v = None"
  from profile_to_dataframe_missing [OF a, of wmo]
  obtain v where v: "v \<in> set (variables cfg)" "ds v = None"
    "profile_to_dataframe cfg env wmo url = Inl (RequiredVariableNotPresent v url)"
    by blast
  then have "save_profile cfg env store url wmo key = (Inr empty_df, store(key \<mapsto> empty_df))"
    by (simp add: save_profile_def put_df_def)
  with v show ?thesis by (auto simp add: get_df_def)
qed

theorem missing_variable_saves_empty_table_witness:
  "open_dataset (one_float_env (unread_oxygen_dataset(''DOXY_ADJUSTED'' := None))) profile_001_url
     = Inr (unread_oxygen_dataset(''DOXY_ADJUSTED'' := None))
   \<and> (\<exists>v\<in>set (variables default_config). (unread_oxygen_dataset(''DOXY_ADJUSTED'' := None)) v = None)
   \<and> profile_to_dataframe default_config
        (one_float_env (unread_oxygen_dataset(''DOXY_ADJUSTED'' := None))) ''1900722'' profile_001_url
       = Inl (RequiredVariableNotPresent ''DOXY_ADJUSTED'' profile_001_url)
   \<and> save_profile default_config
        (one_float_env (unread_oxygen_dataset(''DOXY_ADJUSTED'' := None))) Map.empty
        profile_001_url ''1900722'' ''key''
       = (Inr empty_df, [''key'' \<mapsto> empty_df])"
proof -
  let ?ds = "unread_oxygen_dataset(''DOXY_ADJUSTED'' := None)"
  let ?env = "one_float_env ?ds"
  have opened: "open_dataset ?env profile_001_url = Inr ?ds"
    by (simp add: one_float_env_def)
  have lacks: "\<exists>v\<in>set (variables default_config). ?ds v = None"
    by (simp add: default_config_def init_def default_variables_def)
  have raised: "profile_to_dataframe default_config ?env ''1900722'' profile_001_url
       = Inl (RequiredVariableNotPresent ''DOXY_ADJUSTED'' profile_001_url)"
    by (simp add: profile_to_dataframe_def one_float_env_def default_config_def init_def
        default_variables_def unread_oxygen_dataset_def)
  from opened lacks raised
    missing_variable_saves_empty_table
      [OF opened lacks, of "''1900722''" "Map.empty" "''key''"]
  show ?thesis by simp
qed

subsection \<open>A catalog that cannot be reached\<close>

text \<open>
  Claim C6. When the request for a catalog fails with \<open>ConnectionError\<close>,
  \<open>get_profile_opendap_urls\<close> returns the empty list and raises nothing, and the loop
  over the floats goes on with the next float, the store and the merged table
  unchanged.
\<close>

theorem catalog_connection_error_gives_no_locators:
  "requests_get env catalog_url = Inl ConnectionError \<Longrightarrow>
   get_profile_opendap_urls env catalog_url = Inr []
   \<and> floats_loop cfg env max_profiles ((wmo, catalog_url) # rest) store float_df
       = floats_loop cfg env max_profiles rest store float_df"
  by (simp add: get_profile_opendap_urls_def)

theorem catalog_connection_error_gives_no_locators_witness:
  "requests_get ((one_float_env unread_oxygen_dataset)\<lparr>requests_get := \<lambda>u. Inl ConnectionError\<rparr>)
       ''http://host/thredds/catalog/x/profiles/catalog.xml'' = Inl ConnectionError
   \<and> get_profile_opendap_urls
       ((one_float_env unread_oxygen_dataset)\<lparr>requests_get := \<lambda>u. Inl ConnectionError\<rparr>)
       ''http://host/thredds/catalog/x/profiles/catalog.xml'' = Inr []
   \<and> floats_loop default_config
       ((one_float_env unread_oxygen_dataset)\<lparr>requests_get := \<lambda>u. Inl ConnectionError\<rparr>) 2
       [(''1900722'', ''http://host/thredds/catalog/x/profiles/catalog.xml'')] Map.empty []
       = (Inr [], Map.empty)"
proof -
  let ?env = "(one_float_env unread_oxygen_dataset)\<lparr>requests_get := \<lambda>u. Inl ConnectionError\<rparr>"
  have failed: "requests_get ?env ''http://host/thredds/catalog/x/profiles/catalog.xml''
                  = Inl ConnectionError"
    by simp
  from failed
    catalog_connection_error_gives_no_locators
      [OF failed, of default_config 2 "''1900722''" "[]" Map.empty "[]"]
  show ?thesis by simp
qed

subsection \<open>The cap of the loop over the profiles\<close>

lemma profiles_loop_process_all:
  "profiles_loop cfg env wmo m i urls store float_df
     = process_all cfg env wmo (take (nat (m + 1 - int i)) urls) store float_df"
proof (induction urls arbitrary: i store float_df)
  case Nil
  show ?case by simp
next
  case (Cons url urls)
  show ?case
  proof (cases "int i > m")
    case True
    then have "nat (m + 1 - int i) = 0" by simp
    with True show ?thesis by simp
  next
    case False
    then obtain k where k: "nat (m + 1 - int i) = Suc k" "k = nat (m + 1 - int (Suc i))"
      by (cases "nat (m + 1 - int i)") auto
    with False Cons.IH [of "Suc i"] show ?thesis
      by (simp split: prod.splits sum.splits)
  qed
qed

lemma process_all_length:
  "process_all cfg env wmo urls store float_df = (Inr res, store') \<Longrightarrow>
     length res = length float_df + length urls"
proof (induction urls arbitrary: store float_df)
  case Nil
  then show ?case by simp
next
  case (Cons url urls)
  then show ?case
    by (cases "cached_or_saved cfg env store wmo url") (auto split: sum.splits)
qed

lemma take3_of_5:
  "length (urls :: 'a list) = 5 \<Longrightarrow> take 3 urls = [urls ! 0, urls ! 1, urls ! 2]"
  by (simp add: take_Suc_conv_app_nth numeral_3_eq_3 numeral_2_eq_2)

lemma default_config_simps:
  "variables default_config = default_variables"
  "oxygen_required default_config = True"
  "cache_file_requested default_config = None"
  "thredds_url default_config = ''http://tds0.ifremer.fr/thredds/catalog/CORIOLIS-ARGO-GDAC-OBS''"
  "global_url default_config = ''ftp://ftp.ifremer.fr/ifremer/argo/ar_index_global_meta.txt''"
  by (simp_all add: default_config_def init_def default_variables_def)

lemma floats_loop_process_floats:
  "floats_loop cfg env m dac_urls store float_df
     = process_floats cfg env (nat (m + 1)) dac_urls store float_df"
proof (induction dac_urls arbitrary: store float_df)
  case Nil
  show ?case by simp
next
  case (Cons d dac_urls)
  obtain wmo dac_url where d: "d = (wmo, dac_url)" by (cases d)
  have inner: "profiles_loop cfg env wmo m 0 urls store float_df
                 = process_all cfg env wmo (take (nat (m + 1)) urls) store float_df" for urls
    using profiles_loop_process_all [of cfg env wmo m 0 urls store float_df] by simp
  show ?case
    unfolding d by (simp add: inner Cons.IH split: sum.splits prod.splits)
qed

lemma get_float_dataframe_process_floats:
  "get_float_dataframe cfg env store wmo_list max_profiles =
     (case get_dac_urls cfg env store wmo_list of
        (Inl e, store') \<Rightarrow> (Inl e, store')
      | (Inr dac_urls, store') \<Rightarrow>
          process_floats cfg env (nat (effective_max_profiles cfg max_profiles + 1))
            dac_urls store' [])"
  by (simp add: get_float_dataframe_def floats_loop_process_floats Let_def
      split: prod.splits sum.splits)

lemma effective_max_profiles_no_file_cap:
  "cache_file_max cfg = None \<Longrightarrow> m \<noteq> 0 \<Longrightarrow> effective_max_profiles cfg (Some m) = m"
  by (auto simp add: effective_max_profiles_def get_cache_file_parms_def cache_file_max_def
      split: option.splits)

lemma five_profiles_dac_urls:
  "get_dac_urls default_config five_profiles_env Map.empty [''1900722'']
     = (Inr [(''1900722'',
              ''http://tds0.ifremer.fr/thredds/catalog/CORIOLIS-ARGO-GDAC-OBSaoml/1900722/profiles/catalog.xml'')],
        [GLOBAL_META \<mapsto> GlobalMetaDF [''aoml/1900722/1900722_meta.nc'']])"
  by (simp add: get_dac_urls_def get_df_def put_df_def global_meta_to_df_def one_float_env_def
      five_profiles_env_def default_config_simps)

lemma five_profiles_opendap_urls:
  "get_profile_opendap_urls five_profiles_env
     ''http://tds0.ifremer.fr/thredds/catalog/CORIOLIS-ARGO-GDAC-OBSaoml/1900722/profiles/catalog.xml''
     = Inr [''http://tds0.ifremer.fr/thredds/dodsC/a/1.nc'',
            ''http://tds0.ifremer.fr/thredds/dodsC/a/2.nc'',
            ''http://tds0.ifremer.fr/thredds/dodsC/a/3.nc'',
            ''http://tds0.ifremer.fr/thredds/dodsC/a/4.nc'',
            ''http://tds0.ifremer.fr/thredds/dodsC/a/5.nc'']"
  by (simp add: get_profile_opendap_urls_def one_float_env_def five_profiles_env_def
      search_nc_end_def)

lemma five_profiles_keys:
  "url_to_naturalname ''http://tds0.ifremer.fr/thredds/dodsC/a/1.nc''
     = ''httptds0ifremerfrthreddsdodsCa1nc''"
  "url_to_naturalname ''http://tds0.ifremer.fr/thredds/dodsC/a/2.nc''
     = ''httptds0ifremerfrthreddsdodsCa2nc''"
  "url_to_naturalname ''http://tds0.ifremer.fr/thredds/dodsC/a/3.nc''
     = ''httptds0ifremerfrthreddsdodsCa3nc''"
  "url_to_naturalname ''http://tds0.ifremer.fr/thredds/dodsC/a/4.nc''
     = ''httptds0ifremerfrthreddsdodsCa4nc''"
  by (simp_all add: url_to_naturalname_def illegal_char_def in_range_def)

lemma five_profiles_save:
  "save_profile default_config five_profiles_env store url ''1900722'' key
     = (Inr oxygen_table, store(key \<mapsto> oxygen_table))"
  by (simp add: save_profile_def profile_to_dataframe_def default_config_simps
      default_variables_def five_profiles_env_def one_float_env_def oxygen_dataset_def
      unread_oxygen_dataset_def index_tuples_def values0_def series_def
      symmetric_difference_def coordinates_def put_df_def oxygen_table_def empty_df_def)

text \<open>
  Claim C1. \<open>get_float_dataframe\<close> processes, for every float, the locators of the
  catalog at the indices 0 to the effective cap, the cap included: with the cap \<open>m\<close>
  the first \<open>m + 1\<close> locators. In particular, when the cache file encodes no cap, the
  batch has one float and its catalog has five locators, \<open>get_float_dataframe\<close> with
  \<open>max_profiles = 2\<close> processes the locators at the indices 0, 1 and 2, and a run that
  returns has merged three tables.
\<close>

theorem get_float_dataframe_cap_inclusive:
  "get_float_dataframe cfg env store wmo_list max_profiles =
     (case get_dac_urls cfg env store wmo_list of
        (Inl e, store') \<Rightarrow> (Inl e, store')
      | (Inr dac_urls, store') \<Rightarrow>
          process_floats cfg env (nat (effective_max_profiles cfg max_profiles + 1))
            dac_urls store' [])
   \<and> (cache_file_max cfg = None
        \<and> get_dac_urls cfg env store wmo_list = (Inr [(wmo, dac_url)], store')
        \<and> get_profile_opendap_urls env dac_url = Inr urls
        \<and> length urls = 5 \<longrightarrow>
        get_float_dataframe cfg env store wmo_list (Some 2)
          = process_all cfg env wmo [urls ! 0, urls ! 1, urls ! 2] store' []
        \<and> (\<forall>res store''. get_float_dataframe cfg env store wmo_list (Some 2) = (Inr res, store'')
              \<longrightarrow> length res = 3))"
proof -
  have first_three: "get_float_dataframe cfg env store wmo_list (Some 2)
          = process_all cfg env wmo [urls ! 0, urls ! 1, urls ! 2] store' []"
    if "cache_file_max cfg = None"
      "get_dac_urls cfg env store wmo_list = (Inr [(wmo, dac_url)], store')"
      "get_profile_opendap_urls env dac_url = Inr urls" "length urls = 5"
    using that effective_max_profiles_no_file_cap [of cfg 2] take3_of_5 [of urls]
    by (simp add: get_float_dataframe_process_floats split: sum.splits prod.splits)
  have three_tables: "length res = 3"
    if "cache_file_max cfg = None"
      "get_dac_urls cfg env store wmo_list = (Inr [(wmo, dac_url)], store')"
      "get_profile_opendap_urls env dac_url = Inr urls" "length urls = 5"
      "get_float_dataframe cfg env store wmo_list (Some 2) = (Inr res, store'')"
    for res store''
    using first_three [OF that(1-4)] that(5)
      process_all_length [of cfg env wmo "[urls ! 0, urls ! 1, urls ! 2]" store' "[]" res store'']
    by simp
  from first_three three_tables get_float_dataframe_process_floats [of cfg env store wmo_list max_profiles]
  show ?thesis by blast
qed

theorem get_float_dataframe_cap_inclusive_witness:
  "cache_file_max default_config = None
   \<and> get_dac_urls default_config five_profiles_env Map.empty [''1900722'']
       = (Inr [(''1900722'',
              ''http://tds0.ifremer.fr/thredds/catalog/CORIOLIS-ARGO-GDAC-OBSaoml/1900722/profiles/catalog.xml'')],
          [GLOBAL_META \<mapsto> GlobalMetaDF [''aoml/1900722/1900722_meta.nc'']])
   \<and> get_profile_opendap_urls five_profiles_env
         ''http://tds0.ifremer.fr/thredds/catalog/CORIOLIS-ARGO-GDAC-OBSaoml/1900722/profiles/catalog.xml''
       = Inr [''http://tds0.ifremer.fr/thredds/dodsC/a/1.nc'',
            ''http://tds0.ifremer.fr/thredds/dodsC/a/2.nc'',
            ''http://tds0.ifremer.fr/thredds/dodsC/a/3.nc'',
            ''http://tds0.ifremer.fr/thredds/dodsC/a/4.nc'',
            ''http://tds0.ifremer.fr/thredds/dodsC/a/5.nc'']
   \<and> length [''http://tds0.ifremer.fr/thredds/dodsC/a/1.nc'',
            ''http://tds0.ifremer.fr/thredds/dodsC/a/2.nc'',
            ''http://tds0.ifremer.fr/thredds/dodsC/a/3.nc'',
            ''http://tds0.ifremer.fr/thredds/dodsC/a/4.nc'',
            ''http://tds0.ifremer.fr/thredds/dodsC/a/5.nc''] = 5
   \<and> fst (get_float_dataframe default_config five_profiles_env Map.empty [''1900722''] (Some 2))
       = Inr [oxygen_table, oxygen_table, oxygen_table]
   \<and> snd (get_float_dataframe default_config five_profiles_env Map.empty [''1900722''] (Some 2))
         ''httptds0ifremerfrthreddsdodsCa3nc'' = Some oxygen_table
   \<and> snd (get_float_dataframe default_config five_profiles_env Map.empty [''1900722''] (Some 2))
         ''httptds0ifremerfrthreddsdodsCa4nc'' = None"
proof -
  let ?catalog = "''http://tds0.ifremer.fr/thredds/catalog/CORIOLIS-ARGO-GDAC-OBSaoml/1900722/profiles/catalog.xml''"
  let ?urls = "[''http://tds0.ifremer.fr/thredds/dodsC/a/1.nc'',
            ''http://tds0.ifremer.fr/thredds/dodsC/a/2.nc'',
            ''http://tds0.ifremer.fr/thredds/dodsC/a/3.nc'',
            ''http://tds0.ifremer.fr/thredds/dodsC/a/4.nc'',
            ''http://tds0.ifremer.fr/thredds/dodsC/a/5.nc'']"
  let ?store = "[GLOBAL_META \<mapsto> GlobalMetaDF [''aoml/1900722/1900722_meta.nc'']] :: int store"
  have no_file_cap: "cache_file_max default_config = None"
    by (simp add: cache_file_max_def default_config_simps)
  have five: "length ?urls = 5" by simp
  have run: "process_all default_config five_profiles_env ''1900722''
               [?urls ! 0, ?urls ! 1, ?urls ! 2] ?store []
             = (Inr [oxygen_table, oxygen_table, oxygen_table],
                ?store(''httptds0ifremerfrthreddsdodsCa1nc'' \<mapsto> oxygen_table,
                       ''httptds0ifremerfrthreddsdodsCa2nc'' \<mapsto> oxygen_table,
                       ''httptds0ifremerfrthreddsdodsCa3nc'' \<mapsto> oxygen_table))"
    by (simp add: cached_or_saved_def five_profiles_keys get_df_def five_profiles_save
        GLOBAL_META_def)
  have hyps: "cache_file_max default_config = None
      \<and> get_dac_urls default_config five_profiles_env Map.empty [''1900722'']
          = (Inr [(''1900722'', ?catalog)], ?store)
      \<and> get_profile_opendap_urls five_profiles_env ?catalog = Inr ?urls
      \<and> length ?urls = 5"
    by (intro conjI) (rule no_file_cap five_profiles_dac_urls five_profiles_opendap_urls five)+
  have first_three:
    "get_float_dataframe default_config five_profiles_env Map.empty [''1900722''] (Some 2)
       = process_all default_config five_profiles_env ''1900722''
           [?urls ! 0, ?urls ! 1, ?urls ! 2] ?store []"
    using get_float_dataframe_cap_inclusive
      [of default_config five_profiles_env Map.empty "[''1900722'']" "Some 2"
          "''1900722''" ?catalog ?store ?urls, THEN conjunct2, THEN mp, OF hyps, THEN conjunct1] .
  show ?thesis
    unfolding first_three run
    using no_file_cap five_profiles_dac_urls five_profiles_opendap_urls
    by (simp add: GLOBAL_META_def)
qed

subsection \<open>The effective cap\<close>



subsection \<open>Oxygen validation\<close>

lemma validate_oxygen_all_null:
  "map_of cols ''DOXY_ADJUSTED'' = Some s \<Longrightarrow> \<forall>x\<in>set s. x = None \<Longrightarrow>
     validate_oxygen (ProfileDF idx cols) = Inr empty_df"
  by (simp add: filter_empty_conv)

lemma validate_oxygen_unchanged:
  "map_of cols ''DOXY_ADJUSTED'' = Some s \<Longrightarrow> \<exists>x\<in>set s. x \<noteq> None \<Longrightarrow>
     validate_oxygen (ProfileDF idx cols) = Inr (ProfileDF idx cols)"
  by (auto simp add: filter_empty_conv)

lemma validate_oxygen_absent:
  "map_of cols ''DOXY_ADJUSTED'' = None \<Longrightarrow>
     validate_oxygen (ProfileDF idx cols) = Inl (KeyError ''DOXY_ADJUSTED'')"
  by simp

lemma unread_oxygen_profile:
  "profile_to_dataframe default_config (one_float_env unread_oxygen_dataset) ''1900722'' url
     = Inr (ProfileDF
         [(''1900722'', Scalar (Some 23000), Scalar (Some (- 122)), Scalar (Some 36), Some 5),
          (''1900722'', Scalar (Some 23000), Scalar (Some (- 122)), Scalar (Some 36), Some 10)]
         [(''TEMP_ADJUSTED'', [Some 12, Some 11]), (''PSAL_ADJUSTED'', [Some 35, Some 34])])"
  by (simp add: profile_to_dataframe_def default_config_simps default_variables_def
      one_float_env_def unread_oxygen_dataset_def index_tuples_def values0_def series_def
      symmetric_difference_def coordinates_def)

text \<open>
  Claim C4 says that a table whose oxygen column is absent is replaced by the empty
  table, which is then stored and returned. On the table of a profile whose
  \<open>DOXY_ADJUSTED\<close> could not be read, a table with temperature and salinity and without
  the oxygen column, \<open>_validate_oxygen\<close> raises \<open>KeyError\<close>, and \<open>_save_profile\<close>
  passes the exception on and stores nothing.
\<close>

theorem validate_oxygen_absent_column_raises:
  "validate_oxygen
     (ProfileDF
        [(''1900722'', Scalar (Some 23000), Scalar (Some (- 122)), Scalar (Some 36), Some (5::int)),
         (''1900722'', Scalar (Some 23000), Scalar (Some (- 122)), Scalar (Some 36), Some 10)]
        [(''TEMP_ADJUSTED'', [Some 12, Some 11]), (''PSAL_ADJUSTED'', [Some 35, Some 34])])
     = Inl (KeyError ''DOXY_ADJUSTED'')
   \<and> save_profile default_config (one_float_env unread_oxygen_dataset) Map.empty
        profile_001_url ''1900722'' (url_to_naturalname profile_001_url)
     = (Inl (KeyError ''DOXY_ADJUSTED''), Map.empty)"
  by (simp add: save_profile_def unread_oxygen_profile default_config_simps)

subsection \<open>A batch that does not complete\<close>

lemma one_float_dac_urls:
  "get_dac_urls default_config (one_float_env unread_oxygen_dataset) Map.empty [''1900722'']
     = (Inr [(''1900722'',
              ''http://tds0.ifremer.fr/thredds/catalog/CORIOLIS-ARGO-GDAC-OBSaoml/1900722/profiles/catalog.xml'')],
        [GLOBAL_META \<mapsto> GlobalMetaDF [''aoml/1900722/1900722_meta.nc'']])"
  by (simp add: get_dac_urls_def get_df_def put_df_def global_meta_to_df_def one_float_env_def
      default_config_simps)

lemma one_float_opendap_urls:
  "get_profile_opendap_urls (one_float_env unread_oxygen_dataset)
     ''http://tds0.ifremer.fr/thredds/catalog/CORIOLIS-ARGO-GDAC-OBSaoml/1900722/profiles/catalog.xml''
     = Inr [profile_001_url]"
  by (simp add: get_profile_opendap_urls_def one_float_env_def search_nc_end_def
      profile_001_url_def)

lemma profile_001_key:
  "url_to_naturalname profile_001_url
     = ''httptds0ifremerfrthreddsdodsCaoml1900722profilesD1900722_001nc''"
  by (simp add: url_to_naturalname_def illegal_char_def in_range_def profile_001_url_def)

text \<open>
  Claim C10. With oxygen required there is an input on which \<open>get_float_dataframe\<close>
  does not store an empty entry and go on: the dataset of the one profile of float
  1900722 has every configured variable, but reading \<open>DOXY_ADJUSTED\<close> fails with a
  server error, which \<open>_profile_to_dataframe\<close> only logs. The table has no oxygen
  column, \<open>_validate_oxygen\<close> raises \<open>KeyError\<close>, nothing catches it, and
  \<open>get_float_dataframe\<close> ends with that exception; the store holds the global metadata
  and no entry under the key of the profile.
\<close>

theorem get_float_dataframe_aborts_on_unread_oxygen:
  "oxygen_required default_config
   \<and> [v \<leftarrow> variables default_config. unread_oxygen_dataset v = None] = []
   \<and> unread_oxygen_dataset ''DOXY_ADJUSTED'' = Some ServerFailure
   \<and> get_float_dataframe default_config (one_float_env unread_oxygen_dataset) Map.empty
        [''1900722''] None
       = (Inl (KeyError ''DOXY_ADJUSTED''),
          [GLOBAL_META \<mapsto> GlobalMetaDF [''aoml/1900722/1900722_meta.nc'']])
   \<and> get_df (snd (get_float_dataframe default_config (one_float_env unread_oxygen_dataset)
                    Map.empty [''1900722''] None))
        (url_to_naturalname profile_001_url)
       = Inl (KeyError (url_to_naturalname profile_001_url))"
proof -
  let ?env = "one_float_env unread_oxygen_dataset"
  let ?store = "[GLOBAL_META \<mapsto> GlobalMetaDF [''aoml/1900722/1900722_meta.nc'']] :: int store"
  have present: "[v \<leftarrow> variables default_config. unread_oxygen_dataset v = None] = []"
    by (simp add: default_config_simps default_variables_def unread_oxygen_dataset_def)
  have failing: "unread_oxygen_dataset ''DOXY_ADJUSTED'' = Some ServerFailure"
    by (simp add: unread_oxygen_dataset_def)
  have miss: "get_df ?store (url_to_naturalname profile_001_url)
                = Inl (KeyError (url_to_naturalname profile_001_url))"
    by (simp add: get_df_def profile_001_key GLOBAL_META_def)
  have saved: "save_profile default_config ?env ?store profile_001_url ''1900722''
                 (url_to_naturalname profile_001_url) = (Inl (KeyError ''DOXY_ADJUSTED''), ?store)"
    by (simp add: save_profile_def unread_oxygen_profile default_config_simps)
  have step: "cached_or_saved default_config ?env ?store ''1900722'' profile_001_url
                = (Inl (KeyError ''DOXY_ADJUSTED''), ?store)"
    by (simp add: cached_or_saved_def miss saved)
  have run: "get_float_dataframe default_config ?env Map.empty [''1900722''] None
               = (Inl (KeyError ''DOXY_ADJUSTED''), ?store)"
    by (simp add: get_float_dataframe_def one_float_dac_urls one_float_opendap_urls step
        effective_max_profiles_def get_cache_file_parms_def default_config_simps MAX_PROFILES_def)
  from present failing run miss show ?thesis
    by (simp add: default_config_simps)
qed

end
